theory Spec2Isabelle
  imports Main "HOL-Library.Multiset"
begin

section \<open>The Zonk hand history and its observers (pregunta5.py)\<close>

text \<open>
  The program is object-oriented Python: a subject (\<open>ZonkHandHistory\<close>, an
  \<open>Observable\<close>) holds a list of references to callable observers; the observers hold
  a reference back to the subject they read. Objects are therefore kept in a store, one
  table per kind of object, addressed by references; every method takes the store and
  returns its result together with the updated store. An exception is a result of its
  own, returned with the store as it was when the exception left the method, since Python
  undoes nothing.
\<close>

subsection \<open>Values, exceptions, results\<close>

type_synonym ref = nat

type_synonym Hand = "int list"

datatype exn = AttributeError | IndexError | ValueError

datatype 'a result = Return 'a | Raise exn

subsection \<open>The dice collaborator\<close>

text \<open>
  Modelled from the spec: the class \<open>Dice\<close> (module \<open>dice\<close>) is imported by the
  program and is not part of it. The spec gives its interface: \<open>roll()\<close> "produces a new
  hand and updates the collaborator's internally exposed current hand value", drawn from
  an external random source. The random source is the field \<open>source\<close>: the hand that the
  k-th call of \<open>roll()\<close> draws; \<open>draws\<close> counts the calls made so far. Each roll
  produces a new list, so a hand stored earlier is not changed by a later roll (the
  program's doctests show two different hands in \<open>rolls\<close>).
\<close>

record Dice =
  dice :: Hand
  source :: "nat \<Rightarrow> Hand"
  draws :: nat

definition Dice_roll :: "Dice \<Rightarrow> Dice" where
  "Dice_roll d = d\<lparr>dice := source d (draws d), draws := Suc (draws d)\<rparr>"

subsection \<open>The objects of the program\<close>

text \<open>
  \<open>Observable.__init__\<close> sets \<open>_observers\<close> to the empty list; \<open>ZonkHandHistory.__init__\<close>
  adds \<open>player\<close> and \<open>dice_set\<close> and only annotates \<open>rolls\<close>: the attribute does not
  exist until \<open>start\<close> assigns it, which is the value \<open>None\<close> here.
\<close>

record Observable =
  observers :: "ref list"

record ZonkHandHistory = Observable +
  player :: string
  dice_set :: ref
  rolls :: "Hand list option"

definition ZonkHandHistory_init :: "string \<Rightarrow> ref \<Rightarrow> ZonkHandHistory" where
  "ZonkHandHistory_init p d = \<lparr>observers = [], player = p, dice_set = d, rolls = None\<rparr>"

text \<open>
  The callables that the program attaches: the two observer classes and the
  \<open>unittest.mock.Mock\<close> of the first doctest, which only records that it was called.
\<close>

datatype Observer =
    SaveZonkHand (hand: ref) (count': int)
  | ThreePairZonkHand (hand: ref) (zonked: bool)
  | Mock (mock_calls: nat)

definition SaveZonkHand_init :: "ref \<Rightarrow> Observer" where
  "SaveZonkHand_init h = SaveZonkHand h 0"

definition ThreePairZonkHand_init :: "ref \<Rightarrow> Observer" where
  "ThreePairZonkHand_init h = ThreePairZonkHand h False"

text \<open>
  What the observers print. The record of \<open>SaveZonkHand\<close> is the dictionary with the keys
  \<open>player\<close>, \<open>sequence\<close>, \<open>hands\<close> and \<open>time\<close>; the value of \<open>time.time()\<close> is a
  reading of an external clock, kept as an integer.
\<close>

datatype message = Message (msg_player: string) (msg_sequence: int) (msg_hands: string) (msg_time: int)

datatype line = SaveZonkHand_line message | Three_Pair_Zonk

text \<open>
  The store. \<open>clock\<close> is the external clock: its k-th reading; \<open>ticks\<close> counts the
  readings made. \<open>calls\<close> is not program state: it is the trace of the calls
  \<open>observer()\<close> made by \<open>_notify_observers\<close>, each with the callee and the subjects as
  they were when the call was made.
\<close>

record world =
  subjects :: "ref \<Rightarrow> ZonkHandHistory"
  callables :: "ref \<Rightarrow> Observer"
  dices :: "ref \<Rightarrow> Dice"
  stdout :: "line list"
  clock :: "nat \<Rightarrow> int"
  ticks :: nat
  calls :: "(ref \<times> (ref \<Rightarrow> ZonkHandHistory)) list"

subsection \<open>json.dumps on a list of hands\<close>

text \<open>
  \<open>json.dumps\<close> of a list of lists of integers: decimal integers, items separated by
  a comma and a space, in square brackets.
\<close>

definition digit_char :: "nat \<Rightarrow> char" where
  "digit_char n = ''0123456789'' ! n"

function str_nat :: "nat \<Rightarrow> string" where
  "str_nat n = (if n < 10 then [digit_char n] else str_nat (n div 10) @ [digit_char (n mod 10)])"
  by pat_completeness auto
termination
  by (relation "measure id") auto

definition str_int :: "int \<Rightarrow> string" where
  "str_int i = (if i < 0 then ''-'' @ str_nat (nat (- i)) else str_nat (nat i))"

fun join :: "string \<Rightarrow> string list \<Rightarrow> string" where
  "join sep [] = []"
| "join sep [x] = x"
| "join sep (x # y # ys) = x @ sep @ join sep (y # ys)"

definition dumps_hand :: "Hand \<Rightarrow> string" where
  "dumps_hand h = ''['' @ join '', '' (map str_int h) @ '']''"

definition json_dumps :: "Hand list \<Rightarrow> string" where
  "json_dumps rs = ''['' @ join '', '' (map dumps_hand rs) @ '']''"

subsection \<open>Observable\<close>

definition attach :: "ref \<Rightarrow> ref \<Rightarrow> world \<Rightarrow> unit result \<times> world" where
  "attach self observer w =
     (Return (),
      w\<lparr>subjects := (subjects w)
          (self := (subjects w self)\<lparr>observers := observers (subjects w self) @ [observer]\<rparr>)\<rparr>)"

text \<open>
  \<open>list.remove\<close> deletes the first item equal to its argument and raises \<open>ValueError\<close>
  when there is none; the observers compare by identity, which is equality of references.
\<close>

definition detach :: "ref \<Rightarrow> ref \<Rightarrow> world \<Rightarrow> unit result \<times> world" where
  "detach self observer w =
     (if observer \<in> set (observers (subjects w self))
      then (Return (),
            w\<lparr>subjects := (subjects w)
                (self := (subjects w self)\<lparr>observers := remove1 observer (observers (subjects w self))\<rparr>)\<rparr>)
      else (Raise ValueError, w))"

subsection \<open>The observers' \<open>__call__\<close>\<close>

text \<open>
  \<open>SaveZonkHand.__call__\<close> increments \<open>count\<close> first and then builds the message, so
  the increment stays when reading \<open>self.hand.rolls\<close> raises.
  \<open>ThreePairZonkHand.__call__\<close> reads \<open>self.hand.rolls[-1]\<close>, which raises
  \<open>AttributeError\<close> when \<open>rolls\<close> was never assigned and \<open>IndexError\<close> on an empty list.
\<close>

definition three_pair :: "Hand \<Rightarrow> bool" where
  "three_pair last_roll =
     (let distinct_values = set last_roll
      in card distinct_values = 3 \<and> (\<forall>v \<in> distinct_values. count_list last_roll v = 2))"

definition call :: "ref \<Rightarrow> world \<Rightarrow> unit result \<times> world" where
  "call self w =
     (case callables w self of
        SaveZonkHand h c \<Rightarrow>
          (let w1 = w\<lparr>callables := (callables w)(self := SaveZonkHand h (c + 1))\<rparr>
           in case rolls (subjects w1 h) of
                None \<Rightarrow> (Raise AttributeError, w1)
              | Some rs \<Rightarrow>
                  (Return (),
                   w1\<lparr>stdout := stdout w1 @
                         [SaveZonkHand_line
                            (Message (player (subjects w1 h)) (c + 1) (json_dumps rs)
                               (clock w1 (ticks w1)))],
                       ticks := Suc (ticks w1)\<rparr>))
      | ThreePairZonkHand h z \<Rightarrow>
          (case rolls (subjects w h) of
             None \<Rightarrow> (Raise AttributeError, w)
           | Some rs \<Rightarrow>
               if rs = [] then (Raise IndexError, w)
               else (let z' = three_pair (last rs);
                         w1 = w\<lparr>callables := (callables w)(self := ThreePairZonkHand h z')\<rparr>
                     in (Return (),
                         if z' then w1\<lparr>stdout := stdout w1 @ [Three_Pair_Zonk]\<rparr> else w1)))
      | Mock n \<Rightarrow>
          (Return (), w\<lparr>callables := (callables w)(self := Mock (Suc n))\<rparr>))"

text \<open>
  The loop of \<open>_notify_observers\<close>: the observers are called in the order of the list; an
  exception leaves the loop at once.
\<close>

fun notify_loop :: "ref list \<Rightarrow> world \<Rightarrow> unit result \<times> world" where
  "notify_loop [] w = (Return (), w)"
| "notify_loop (observer # rest) w =
     (case call observer (w\<lparr>calls := calls w @ [(observer, subjects w)]\<rparr>) of
        (Raise e, w') \<Rightarrow> (Raise e, w')
      | (Return u, w') \<Rightarrow> notify_loop rest w')"

definition notify_observers :: "ref \<Rightarrow> world \<Rightarrow> unit result \<times> world" where
  "notify_observers self w = notify_loop (observers (subjects w self)) w"

subsection \<open>ZonkHandHistory\<close>

definition roll_dice_set :: "ref \<Rightarrow> world \<Rightarrow> world" where
  "roll_dice_set self w =
     (let d = dice_set (subjects w self)
      in w\<lparr>dices := (dices w)(d := Dice_roll (dices w d))\<rparr>)"

definition current_dice :: "ref \<Rightarrow> world \<Rightarrow> Hand" where
  "current_dice self w = dice (dices w (dice_set (subjects w self)))"

definition start :: "ref \<Rightarrow> world \<Rightarrow> Hand result \<times> world" where
  "start self w =
     (let w1 = roll_dice_set self w;
          w2 = w1\<lparr>subjects := (subjects w1)
                 (self := (subjects w1 self)\<lparr>rolls := Some [current_dice self w1]\<rparr>)\<rparr>
      in case notify_observers self w2 of
           (Raise e, w3) \<Rightarrow> (Raise e, w3)
         | (Return u, w3) \<Rightarrow> (Return (current_dice self w3), w3))"

definition roll :: "ref \<Rightarrow> world \<Rightarrow> Hand result \<times> world" where
  "roll self w =
     (let w1 = roll_dice_set self w
      in case rolls (subjects w1 self) of
           None \<Rightarrow> (Raise AttributeError, w1)
         | Some rs \<Rightarrow>
             (let w2 = w1\<lparr>subjects := (subjects w1)
                        (self := (subjects w1 self)\<lparr>rolls := Some (rs @ [current_dice self w1])\<rparr>)\<rparr>
              in case notify_observers self w2 of
                   (Raise e, w3) \<Rightarrow> (Raise e, w3)
                 | (Return u, w3) \<Rightarrow> (Return (current_dice self w3), w3)))"

subsection \<open>Callers\<close>

text \<open>
  A caller that attaches a list of observers one after the other, and a caller that makes
  a list of calls of \<open>start\<close> and \<open>roll\<close> on one subject, going on to the next call
  whatever the last one returned or raised (as the lines of a doctest do).
\<close>

fun attach_all :: "ref \<Rightarrow> ref list \<Rightarrow> world \<Rightarrow> world" where
  "attach_all self [] w = w"
| "attach_all self (x # xs) w = attach_all self xs (snd (attach self x w))"

datatype action = Start | Roll

fun exec :: "ref \<Rightarrow> action \<Rightarrow> world \<Rightarrow> Hand result \<times> world" where
  "exec self Start w = start self w"
| "exec self Roll w = roll self w"

fun run :: "ref \<Rightarrow> action list \<Rightarrow> world \<Rightarrow> world" where
  "run self [] w = w"
| "run self (m # ms) w = run self ms (snd (exec self m w))"

subsection \<open>Notions used to state the properties\<close>

text \<open>
  \<open>new_hand\<close> is the hand that the next roll of the subject's dice produces.
  \<open>reads\<close> is the subject that an observer reads when it is called. \<open>fault\<close> is the
  exception with which an observer's \<open>__call__\<close> ends, for given subjects: it is derived
  from the places where \<open>call\<close> raises and is proved to agree with \<open>call\<close> below.
  \<open>invoked\<close> is the list of the callees of the calls that a step added to the trace.
\<close>

definition new_hand :: "ref \<Rightarrow> world \<Rightarrow> Hand" where
  "new_hand self w =
     (let d = dices w (dice_set (subjects w self)) in source d (draws d))"


fun fault :: "(ref \<Rightarrow> ZonkHandHistory) \<Rightarrow> Observer \<Rightarrow> exn option" where
  "fault S (SaveZonkHand h c) = (if rolls (S h) = None then Some AttributeError else None)"
| "fault S (ThreePairZonkHand h z) =
     (case rolls (S h) of
        None \<Rightarrow> Some AttributeError
      | Some rs \<Rightarrow> if rs = [] then Some IndexError else None)"
| "fault S (Mock n) = None"

definition invoked :: "world \<Rightarrow> world \<Rightarrow> (ref \<times> (ref \<Rightarrow> ZonkHandHistory)) list" where
  "invoked w w' = drop (length (calls w)) (calls w')"

subsection \<open>The objects of the doctests\<close>

text \<open>
  The third doctest: the player David with a dice set, a \<open>SaveZonkHand\<close> (reference 0)
  and a \<open>ThreePairZonkHand\<close> (reference 1) constructed on that player, before the calls
  of \<open>attach\<close>. With the seed 21 the dice give [2, 3, 4, 4, 6, 6] and then
  [2, 2, 4, 4, 5, 5]. Every other reference holds an object that the doctest does not
  use: an unstarted history of a player Bo, a fresh Mock.
\<close>

definition david :: ZonkHandHistory where
  "david = ZonkHandHistory_init ''David'' 0"

definition seed21 :: Dice where
  "seed21 = \<lparr>dice = [], source = (\<lambda>k. if k = 0 then [2, 3, 4, 4, 6, 6] else [2, 2, 4, 4, 5, 5]),
              draws = 0\<rparr>"

definition doctest_world :: world where
  "doctest_world =
     \<lparr>subjects = (\<lambda>r. ZonkHandHistory_init ''Bo'' 0)(0 := david),
      callables = (\<lambda>r. Mock 0)(0 := SaveZonkHand_init 0, 1 := ThreePairZonkHand_init 0),
      dices = (\<lambda>r. seed21),
      stdout = [],
      clock = (\<lambda>k. int k),
      ticks = 0,
      calls = []\<rparr>"

text \<open>
  \<open>started\<close> and \<open>appended\<close> are the store after the assignment to \<open>rolls\<close> in
  \<open>start\<close> and after the \<open>append\<close> in \<open>roll\<close>, before the notification.
\<close>

definition started :: "ref \<Rightarrow> world \<Rightarrow> world" where
  "started self w =
     (let w1 = roll_dice_set self w
      in w1\<lparr>subjects := (subjects w1)
             (self := (subjects w1 self)\<lparr>rolls := Some [current_dice self w1]\<rparr>)\<rparr>)"

definition appended :: "ref \<Rightarrow> Hand list \<Rightarrow> world \<Rightarrow> world" where
  "appended self rs w =
     (let w1 = roll_dice_set self w
      in w1\<lparr>subjects := (subjects w1)
             (self := (subjects w1 self)\<lparr>rolls := Some (rs @ [current_dice self w1])\<rparr>)\<rparr>)"

text \<open>
  The store of the third doctest when the second hand has been appended.
\<close>

definition zonk_world :: world where
  "zonk_world = doctest_world\<lparr>subjects := (subjects doctest_world)
      (0 := david\<lparr>rolls := Some [[2, 3, 4, 4, 6, 6], [2, 2, 4, 4, 5, 5]]\<rparr>)\<rparr>"

text \<open>
  A store for the failure of an observer: the objects of the third doctest and a second
  \<open>ThreePairZonkHand\<close> (reference 2) constructed on the history of Bo (reference 1), which
  is never started; the observers 0, 2 and 1 are attached, in this order, to David.
\<close>

definition foreign_world :: world where
  "foreign_world =
     attach_all 0 [0, 2, 1]
       (doctest_world\<lparr>callables := (callables doctest_world)(2 := ThreePairZonkHand_init 1)\<rparr>)"

text \<open>
  The third doctest: the store after the two calls of \<open>attach\<close>, after \<open>start\<close> and
  after \<open>roll\<close>.
\<close>

definition attached_world :: world where
  "attached_world = attach_all 0 [0, 1] doctest_world"

definition after_start :: world where
  "after_start = snd (start 0 attached_world)"




section \<open>Properties\<close>

subsection \<open>What a call of an observer does\<close>

lemma call_Mock:
  "callables w x = Mock n \<Longrightarrow>
   call x w = (Return (), w\<lparr>callables := (callables w)(x := Mock (Suc n))\<rparr>)"
  by (simp add: call_def)

lemma call_Save_unset:
  "callables w x = SaveZonkHand h c \<Longrightarrow> rolls (subjects w h) = None \<Longrightarrow>
   call x w = (Raise AttributeError, w\<lparr>callables := (callables w)(x := SaveZonkHand h (c + 1))\<rparr>)"
  by (simp add: call_def)

lemma call_Save_rolls:
  "callables w x = SaveZonkHand h c \<Longrightarrow> rolls (subjects w h) = Some rs \<Longrightarrow>
   call x w =
     (Return (),
      w\<lparr>callables := (callables w)(x := SaveZonkHand h (c + 1)),
        stdout := stdout w @
          [SaveZonkHand_line (Message (player (subjects w h)) (c + 1) (json_dumps rs) (clock w (ticks w)))],
        ticks := Suc (ticks w)\<rparr>)"
  by (simp add: call_def)

lemma call_Three_unset:
  "callables w x = ThreePairZonkHand h z \<Longrightarrow> rolls (subjects w h) = None \<Longrightarrow>
   call x w = (Raise AttributeError, w)"
  by (simp add: call_def)

lemma call_Three_empty:
  "callables w x = ThreePairZonkHand h z \<Longrightarrow> rolls (subjects w h) = Some [] \<Longrightarrow>
   call x w = (Raise IndexError, w)"
  by (simp add: call_def)

lemma call_Three_rolls:
  "callables w x = ThreePairZonkHand h z \<Longrightarrow> rolls (subjects w h) = Some rs \<Longrightarrow> rs \<noteq> [] \<Longrightarrow>
   call x w =
     (Return (),
      w\<lparr>callables := (callables w)(x := ThreePairZonkHand h (three_pair (last rs))),
        stdout := (if three_pair (last rs) then stdout w @ [Three_Pair_Zonk] else stdout w)\<rparr>)"
  by (simp add: call_def Let_def)

lemmas call_cases =
  call_Mock call_Save_unset call_Save_rolls call_Three_unset call_Three_empty call_Three_rolls

lemma call_frame:
  "subjects (snd (call x w)) = subjects w \<and> dices (snd (call x w)) = dices w \<and>
   calls (snd (call x w)) = calls w \<and> clock (snd (call x w)) = clock w \<and>
   (\<forall>y. y \<noteq> x \<longrightarrow> callables (snd (call x w)) y = callables w y) \<and>
   (\<forall>S y. fault S (callables (snd (call x w)) y) = fault S (callables w y)) \<and>
   fst (call x w) = (case fault (subjects w) (callables w x) of None \<Rightarrow> Return () | Some e \<Rightarrow> Raise e)"
proof (cases "callables w x")
  case (SaveZonkHand h c)
  show ?thesis
  proof (cases "rolls (subjects w h)")
    case None
    show ?thesis using SaveZonkHand None by (simp add: call_Save_unset)
  next
    case (Some rs)
    show ?thesis using SaveZonkHand Some by (simp add: call_Save_rolls)
  qed
next
  case (ThreePairZonkHand h z)
  show ?thesis
  proof (cases "rolls (subjects w h)")
    case None
    show ?thesis using ThreePairZonkHand None by (simp add: call_Three_unset)
  next
    case (Some rs)
    show ?thesis
    proof (cases "rs = []")
      case True
      show ?thesis using ThreePairZonkHand Some True by (simp add: call_Three_empty)
    next
      case False
      show ?thesis using ThreePairZonkHand Some False by (simp add: call_Three_rolls)
    qed
  qed
next
  case (Mock n)
  show ?thesis using Mock by (simp add: call_Mock)
qed

lemma call_fst:
  "fst (call x w) = (case fault (subjects w) (callables w x) of None \<Rightarrow> Return () | Some e \<Rightarrow> Raise e)"
  using call_frame [of x w] by blast

lemma call_subjects: "subjects (snd (call x w)) = subjects w"
  using call_frame [of x w] by blast

lemma call_dices: "dices (snd (call x w)) = dices w"
  using call_frame [of x w] by blast

lemma call_calls: "calls (snd (call x w)) = calls w"
  using call_frame [of x w] by blast

lemma call_fault: "fault S (callables (snd (call x w)) y) = fault S (callables w y)"
  using call_frame [of x w] by blast


subsection \<open>What a notification round does\<close>

lemma notify_loop_subjects: "subjects (snd (notify_loop os w)) = subjects w"
proof (induction os arbitrary: w)
  case Nil
  show ?case by simp
next
  case (Cons x os)
  let ?w = "w\<lparr>calls := calls w @ [(x, subjects w)]\<rparr>"
  obtain r w' where c: "call x ?w = (r, w')" by (cases "call x ?w")
  have s: "subjects w' = subjects w" using call_subjects [of x ?w] c by simp
  show ?case
  proof (cases r)
    case (Return u)
    then show ?thesis using c s Cons.IH [of w'] by simp
  next
    case (Raise e)
    then show ?thesis using c s by simp
  qed
qed

lemma notify_loop_dices: "dices (snd (notify_loop os w)) = dices w"
proof (induction os arbitrary: w)
  case Nil
  show ?case by simp
next
  case (Cons x os)
  let ?w = "w\<lparr>calls := calls w @ [(x, subjects w)]\<rparr>"
  obtain r w' where c: "call x ?w = (r, w')" by (cases "call x ?w")
  have s: "dices w' = dices w" using call_dices [of x ?w] c by simp
  show ?case
  proof (cases r)
    case (Return u)
    then show ?thesis using c s Cons.IH [of w'] by simp
  next
    case (Raise e)
    then show ?thesis using c s by simp
  qed
qed

lemma notify_loop_fault: "fault S (callables (snd (notify_loop os w)) y) = fault S (callables w y)"
proof (induction os arbitrary: w)
  case Nil
  show ?case by simp
next
  case (Cons x os)
  let ?w = "w\<lparr>calls := calls w @ [(x, subjects w)]\<rparr>"
  obtain r w' where c: "call x ?w = (r, w')" by (cases "call x ?w")
  have s: "fault S (callables w' y) = fault S (callables w y)" using call_fault [of S x ?w y] c by simp
  show ?case
  proof (cases r)
    case (Return u)
    then show ?thesis using c s Cons.IH [of w'] by simp
  next
    case (Raise e)
    then show ?thesis using c s by simp
  qed
qed


lemma notify_loop_raise:
  "\<forall>x \<in> set pre. fault (subjects w) (callables w x) = None \<Longrightarrow>
   fault (subjects w) (callables w y) = Some e \<Longrightarrow>
   fst (notify_loop (pre @ y # post) w) = Raise e \<and>
   calls (snd (notify_loop (pre @ y # post) w)) = calls w @ map (\<lambda>x. (x, subjects w)) (pre @ [y])"
proof (induction pre arbitrary: w)
  case Nil
  let ?w = "w\<lparr>calls := calls w @ [(y, subjects w)]\<rparr>"
  obtain r w' where c: "call y ?w = (r, w')" by (cases "call y ?w")
  have r: "r = Raise e" using call_fst [of y ?w] c Nil.prems by simp
  have k: "calls w' = calls w @ [(y, subjects w)]" using call_calls [of y ?w] c by simp
  show ?case using c r k by simp
next
  case (Cons x pre)
  let ?w = "w\<lparr>calls := calls w @ [(x, subjects w)]\<rparr>"
  obtain r w' where c: "call x ?w = (r, w')" by (cases "call x ?w")
  have r: "r = Return ()" using call_fst [of x ?w] c Cons.prems by simp
  have s: "subjects w' = subjects w" using call_subjects [of x ?w] c by simp
  have k: "calls w' = calls w @ [(x, subjects w)]" using call_calls [of x ?w] c by simp
  have f: "\<forall>z \<in> set pre. fault (subjects w') (callables w' z) = None"
    using call_fault [of "subjects w" x ?w] c s Cons.prems by simp
  have g: "fault (subjects w') (callables w' y) = Some e"
    using call_fault [of "subjects w" x ?w y] c s Cons.prems by simp
  show ?case using c r s k Cons.IH [OF f g] by simp
qed

lemma notify_loop_prefix:
  "\<exists>k \<le> length os.
     calls (snd (notify_loop os w)) = calls w @ map (\<lambda>x. (x, subjects w)) (take k os) \<and>
     (fst (notify_loop os w) = Return () \<longrightarrow> k = length os)"
proof (induction os arbitrary: w)
  case Nil
  show ?case by simp
next
  case (Cons x os)
  let ?w = "w\<lparr>calls := calls w @ [(x, subjects w)]\<rparr>"
  obtain r w' where c: "call x ?w = (r, w')" by (cases "call x ?w")
  have s: "subjects w' = subjects w" using call_subjects [of x ?w] c by simp
  have k: "calls w' = calls w @ [(x, subjects w)]" using call_calls [of x ?w] c by simp
  show ?case
  proof (cases r)
    case (Return u)
    from Cons.IH [of w'] obtain j where j: "j \<le> length os"
      "calls (snd (notify_loop os w')) = calls w' @ map (\<lambda>x. (x, subjects w')) (take j os)"
      "fst (notify_loop os w') = Return () \<longrightarrow> j = length os" by blast
    have "Suc j \<le> length (x # os) \<and>
      calls (snd (notify_loop (x # os) w)) = calls w @ map (\<lambda>x. (x, subjects w)) (take (Suc j) (x # os)) \<and>
     (fst (notify_loop (x # os) w) = Return () \<longrightarrow> Suc j = length (x # os))"
      using Return c s k j by simp
    then show ?thesis by blast
  next
    case (Raise e)
    have "Suc 0 \<le> length (x # os) \<and>
      calls (snd (notify_loop (x # os) w)) = calls w @ map (\<lambda>x. (x, subjects w)) (take (Suc 0) (x # os)) \<and>
     (fst (notify_loop (x # os) w) = Return () \<longrightarrow> Suc 0 = length (x # os))"
      using Raise c k by simp
    then show ?thesis by blast
  qed
qed

subsection \<open>What start and roll do\<close>

lemma roll_dice_set_frame:
  "subjects (roll_dice_set s w) = subjects w \<and> callables (roll_dice_set s w) = callables w \<and>
   stdout (roll_dice_set s w) = stdout w \<and> calls (roll_dice_set s w) = calls w \<and>
   clock (roll_dice_set s w) = clock w \<and> ticks (roll_dice_set s w) = ticks w \<and>
   current_dice s (roll_dice_set s w) = new_hand s w \<and>
   dices (roll_dice_set s w) =
     (dices w)(dice_set (subjects w s) := Dice_roll (dices w (dice_set (subjects w s))))"
  by (simp add: roll_dice_set_def current_dice_def new_hand_def Dice_roll_def Let_def)

lemma started_frame:
  "subjects (started s w) = (subjects w)(s := (subjects w s)\<lparr>rolls := Some [new_hand s w]\<rparr>) \<and>
   callables (started s w) = callables w \<and> stdout (started s w) = stdout w \<and>
   calls (started s w) = calls w \<and> clock (started s w) = clock w \<and>
   ticks (started s w) = ticks w \<and> current_dice s (started s w) = new_hand s w \<and>
   dices (started s w) = dices (roll_dice_set s w)"
  by (simp add: started_def roll_dice_set_def current_dice_def new_hand_def Dice_roll_def Let_def)

lemma appended_frame:
  "subjects (appended s rs w) = (subjects w)(s := (subjects w s)\<lparr>rolls := Some (rs @ [new_hand s w])\<rparr>) \<and>
   callables (appended s rs w) = callables w \<and> stdout (appended s rs w) = stdout w \<and>
   calls (appended s rs w) = calls w \<and> clock (appended s rs w) = clock w \<and>
   ticks (appended s rs w) = ticks w \<and> current_dice s (appended s rs w) = new_hand s w \<and>
   dices (appended s rs w) = dices (roll_dice_set s w)"
  by (simp add: appended_def roll_dice_set_def current_dice_def new_hand_def Dice_roll_def Let_def)

lemma notify_current_dice: "current_dice s (snd (notify_observers t w)) = current_dice s w"
  by (simp add: current_dice_def notify_observers_def notify_loop_subjects notify_loop_dices)

lemma start_eq:
  "start s w =
     (case fst (notify_observers s (started s w)) of
        Return u \<Rightarrow> Return (new_hand s w) | Raise e \<Rightarrow> Raise e,
      snd (notify_observers s (started s w)))"
proof -
  obtain r w3 where n: "notify_observers s (started s w) = (r, w3)"
    by (cases "notify_observers s (started s w)")
  have "current_dice s w3 = new_hand s w"
    using notify_current_dice [of s s "started s w"] n started_frame [of s w] by simp
  then show ?thesis
    using n by (cases r) (simp_all add: start_def started_def Let_def)
qed

lemma roll_unset:
  "rolls (subjects w s) = None \<Longrightarrow> roll s w = (Raise AttributeError, roll_dice_set s w)"
  using roll_dice_set_frame [of s w] by (simp add: roll_def Let_def)

lemma roll_eq:
  assumes "rolls (subjects w s) = Some rs"
  shows "roll s w =
     (case fst (notify_observers s (appended s rs w)) of
        Return u \<Rightarrow> Return (new_hand s w) | Raise e \<Rightarrow> Raise e,
      snd (notify_observers s (appended s rs w)))"
proof -
  obtain r w3 where n: "notify_observers s (appended s rs w) = (r, w3)"
    by (cases "notify_observers s (appended s rs w)")
  have "current_dice s w3 = new_hand s w"
    using notify_current_dice [of s s "appended s rs w"] n appended_frame [of s rs w] by simp
  then show ?thesis
    using n assms roll_dice_set_frame [of s w]
    by (cases r) (simp_all add: roll_def appended_def Let_def)
qed

subsection \<open>The three-pair rule\<close>

lemma three_pair_count:
  "three_pair h \<longleftrightarrow> card (set_mset (mset h)) = 3 \<and> (\<forall>v \<in># mset h. count (mset h) v = 2)"
  by (simp add: three_pair_def Let_def count_mset)

lemma three_pair_mset:
  "three_pair h \<longleftrightarrow> (\<exists>a b c. a \<noteq> b \<and> b \<noteq> c \<and> a \<noteq> c \<and> mset h = {#a, a, b, b, c, c#})"
proof
  assume tp: "three_pair h"
  then have c3: "card (set h) = 3" and two: "\<forall>v \<in> set h. count (mset h) v = 2"
    by (simp_all add: three_pair_def Let_def count_mset)
  from c3 obtain a b c where abc: "set h = {a, b, c}" "a \<noteq> b" "b \<noteq> c" "a \<noteq> c"
    by (auto simp: card_3_iff)
  have "mset h = {#a, a, b, b, c, c#}"
  proof (rule multiset_eqI)
    fix x
    show "count (mset h) x = count {#a, a, b, b, c, c#} x"
    proof (cases "x \<in> set h")
      case True
      then have "count (mset h) x = 2" using two by blast
      moreover have "count {#a, a, b, b, c, c#} x = 2" using True abc by auto
      ultimately show ?thesis by simp
    next
      case False
      then have "count (mset h) x = 0" by simp
      moreover have "count {#a, a, b, b, c, c#} x = 0" using False abc by auto
      ultimately show ?thesis by simp
    qed
  qed
  with abc show "\<exists>a b c. a \<noteq> b \<and> b \<noteq> c \<and> a \<noteq> c \<and> mset h = {#a, a, b, b, c, c#}" by blast
next
  assume "\<exists>a b c. a \<noteq> b \<and> b \<noteq> c \<and> a \<noteq> c \<and> mset h = {#a, a, b, b, c, c#}"
  then obtain a b c where abc: "a \<noteq> b" "b \<noteq> c" "a \<noteq> c" and m: "mset h = {#a, a, b, b, c, c#}"
    by blast
  have s: "set_mset (mset h) = {a, b, c}" using m by auto
  have "card {a, b, c} = 3" using abc by simp
  moreover have "\<forall>v \<in> {a, b, c}. count (mset h) v = 2" using abc m by auto
  ultimately show "three_pair h" using s by (simp add: three_pair_count)
qed

lemma three_pair_perm: "mset h = mset h' \<Longrightarrow> three_pair h = three_pair h'"
  by (simp add: three_pair_count)

lemma three_pair_no: "\<not> three_pair [1, 1, 2, 3, 6, 6]"
  by (simp add: three_pair_def)

lemma three_pair_yes: "three_pair [2, 2, 4, 4, 5, 5]"
  by (simp add: three_pair_def)

text \<open>
  Claim C1. When a \<open>ThreePairZonkHand\<close> is called and \<open>h\<close> is the last hand of the
  \<open>rolls\<close> of its subject, the call returns and sets \<open>zonked\<close>, whatever its value
  \<open>z\<close> was before, to true exactly when \<open>h\<close> has exactly 3 distinct face values and
  each of them occurs exactly 2 times: \<open>h\<close> is a permutation of a, a, b, b, c, c for three
  different values. [1,1,2,3,6,6] gives false, [2,2,4,4,5,5] gives true, and two hands
  with the same multiset of values give the same result.
\<close>

theorem three_pair_zonked:
  assumes "callables w x = ThreePairZonkHand s z" and "rolls (subjects w s) = Some (rs @ [h])"
  shows "fst (call x w) = Return () \<and>
         (zonked (callables (snd (call x w)) x) \<longleftrightarrow>
            card (set_mset (mset h)) = 3 \<and> (\<forall>v \<in># mset h. count (mset h) v = 2)) \<and>
         (zonked (callables (snd (call x w)) x) \<longleftrightarrow>
            (\<exists>a b c. a \<noteq> b \<and> b \<noteq> c \<and> a \<noteq> c \<and> mset h = {#a, a, b, b, c, c#})) \<and>
         (h = [1, 1, 2, 3, 6, 6] \<longrightarrow> \<not> zonked (callables (snd (call x w)) x)) \<and>
         (h = [2, 2, 4, 4, 5, 5] \<longrightarrow> zonked (callables (snd (call x w)) x)) \<and>
         (\<forall>w' x' s' z' rs' h'.
            callables w' x' = ThreePairZonkHand s' z' \<and> rolls (subjects w' s') = Some (rs' @ [h']) \<and>
            mset h' = mset h \<longrightarrow>
            zonked (callables (snd (call x' w')) x') = zonked (callables (snd (call x w)) x))"
proof -
  have c: "\<And>w x s z rs h. callables w x = ThreePairZonkHand s z \<Longrightarrow>
      rolls (subjects w s) = Some (rs @ [h]) \<Longrightarrow>
      fst (call x w) = Return () \<and> zonked (callables (snd (call x w)) x) = three_pair h"
    by (simp add: call_Three_rolls)
  have 1: "fst (call x w) = Return ()" and 2: "zonked (callables (snd (call x w)) x) = three_pair h"
    using c [OF assms] by simp_all
  have 3: "\<forall>w' x' s' z' rs' h'.
            callables w' x' = ThreePairZonkHand s' z' \<and> rolls (subjects w' s') = Some (rs' @ [h']) \<and>
            mset h' = mset h \<longrightarrow>
            zonked (callables (snd (call x' w')) x') = zonked (callables (snd (call x w)) x)"
    using c 2 three_pair_perm by blast
  show ?thesis
    using 1 2 3 three_pair_count [of h] three_pair_mset [of h] three_pair_no three_pair_yes
    by blast
qed

theorem three_pair_zonked_witness:
  "callables zonk_world 1 = ThreePairZonkHand 0 False \<and>
   rolls (subjects zonk_world 0) = Some ([[2, 3, 4, 4, 6, 6]] @ [[2, 2, 4, 4, 5, 5]]) \<and>
   fst (call 1 zonk_world) = Return () \<and>
   zonked (callables (snd (call 1 zonk_world)) 1)"
proof -
  have a: "callables zonk_world 1 = ThreePairZonkHand 0 False"
    by (simp add: zonk_world_def doctest_world_def ThreePairZonkHand_init_def)
  have b: "rolls (subjects zonk_world 0) = Some ([[2, 3, 4, 4, 6, 6]] @ [[2, 2, 4, 4, 5, 5]])"
    by (simp add: zonk_world_def doctest_world_def david_def)
  show ?thesis using three_pair_zonked [OF a b] a b by simp
qed

subsection \<open>Construction and the call of roll before start\<close>

text \<open>
  Claim C10. A freshly constructed \<open>ThreePairZonkHand\<close> has \<open>zonked\<close> false, and
  attaching it to a subject, which calls nothing, leaves it so: read before the first
  \<open>start\<close> or \<open>roll\<close> of its subject, \<open>zonked\<close> is false.
\<close>

theorem fresh_detector_not_zonked:
  "\<not> zonked (ThreePairZonkHand_init h) \<and>
   (callables w x = ThreePairZonkHand_init h \<longrightarrow>
      \<not> zonked (callables (snd (attach s x w)) x) \<and> calls (snd (attach s x w)) = calls w)"
  by (simp add: ThreePairZonkHand_init_def attach_def)

theorem fresh_detector_not_zonked_witness:
  "callables doctest_world 1 = ThreePairZonkHand_init 0 \<and>
   \<not> zonked (callables (snd (attach 0 1 doctest_world)) 1)"
proof -
  have a: "callables doctest_world 1 = ThreePairZonkHand_init 0"
    by (simp add: doctest_world_def)
  show ?thesis using fresh_detector_not_zonked [of 0 doctest_world 1 0] a by simp
qed

text \<open>
  Claim C9. A constructed \<open>ZonkHandHistory\<close> has no \<open>rolls\<close>. A call of \<open>roll\<close> on a
  subject that has no \<open>rolls\<close> raises \<open>AttributeError\<close>: the subjects are unchanged (no
  hand is recorded, \<open>rolls\<close> still does not exist), no observer is called and nothing is
  printed. (The dice set has been rolled by then.)
\<close>

theorem roll_before_start:
  "rolls (ZonkHandHistory_init p d) = None \<and>
   (rolls (subjects w s) = None \<longrightarrow>
      fst (roll s w) = Raise AttributeError \<and>
      subjects (snd (roll s w)) = subjects w \<and>
      rolls (subjects (snd (roll s w)) s) = None \<and>
      calls (snd (roll s w)) = calls w \<and>
      callables (snd (roll s w)) = callables w \<and>
      stdout (snd (roll s w)) = stdout w)"
  using roll_dice_set_frame [of s w]
  by (simp add: ZonkHandHistory_init_def roll_unset)

theorem roll_before_start_witness:
  "rolls (subjects doctest_world 0) = None \<and>
   fst (roll 0 doctest_world) = Raise AttributeError \<and>
   rolls (subjects (snd (roll 0 doctest_world)) 0) = None \<and>
   calls (snd (roll 0 doctest_world)) = []"
proof -
  have a: "rolls (subjects doctest_world 0) = None"
    by (simp add: doctest_world_def david_def ZonkHandHistory_init_def)
  have b: "calls doctest_world = []"
    by (simp add: doctest_world_def)
  show ?thesis using roll_before_start [of "''David''" 0 doctest_world 0] a b by simp
qed

subsection \<open>Attaching and detaching\<close>

lemma notify_observers_invoked:
  "\<exists>k \<le> length (observers (subjects w s)).
     invoked w (snd (notify_observers s w)) =
       map (\<lambda>x. (x, subjects w)) (take k (observers (subjects w s))) \<and>
     (fst (notify_observers s w) = Return () \<longrightarrow> k = length (observers (subjects w s)))"
proof -
  from notify_loop_prefix [of "observers (subjects w s)" w] obtain k
    where k: "k \<le> length (observers (subjects w s))"
      "calls (snd (notify_loop (observers (subjects w s)) w)) =
         calls w @ map (\<lambda>x. (x, subjects w)) (take k (observers (subjects w s)))"
      "fst (notify_loop (observers (subjects w s)) w) = Return () \<longrightarrow>
         k = length (observers (subjects w s))"
    by blast
  have "invoked w (snd (notify_observers s w)) =
       map (\<lambda>x. (x, subjects w)) (take k (observers (subjects w s)))"
    using k(2) by (simp add: notify_observers_def invoked_def)
  then show ?thesis using k(1) k(3) by (auto simp: notify_observers_def)
qed

lemma detach_frame:
  "callables (snd (detach s x w)) = callables w \<and> calls (snd (detach s x w)) = calls w \<and>
   stdout (snd (detach s x w)) = stdout w \<and> dices (snd (detach s x w)) = dices w \<and>
   (\<forall>t. t \<noteq> s \<longrightarrow> subjects (snd (detach s x w)) t = subjects w t) \<and>
   rolls (subjects (snd (detach s x w)) s) = rolls (subjects w s) \<and>
   observers (subjects (snd (detach s x w)) s) = remove1 x (observers (subjects w s))"
  by (simp add: detach_def remove1_idem)

text \<open>
  Claim C7. \<open>detach\<close> of an observer that is in the list returns and removes its first
  occurrence and nothing else: the list \<open>pre @ x # post\<close> with \<open>x\<close> not in \<open>pre\<close> becomes
  \<open>pre @ post\<close>, so \<open>x\<close> is in the list one time less, and the next notification round
  calls the observers of \<open>pre @ post\<close> (all of them when it returns, the first \<open>k\<close> when
  one raises): an observer that was attached once is not called any more. \<open>detach\<close> of an
  observer that is not in the list raises \<open>ValueError\<close>, the "not found" condition of
  \<open>list.remove\<close>, and leaves the store as it was.
\<close>

theorem detach_first_occurrence:
  "(x \<in> set (observers (subjects w s)) \<longrightarrow>
      fst (detach s x w) = Return () \<and>
      (\<exists>pre post.
         observers (subjects w s) = pre @ x # post \<and> x \<notin> set pre \<and>
         observers (subjects (snd (detach s x w)) s) = pre @ post \<and>
         (\<exists>k \<le> length (pre @ post).
            map fst (invoked (snd (detach s x w)) (snd (notify_observers s (snd (detach s x w))))) =
              take k (pre @ post) \<and>
            (fst (notify_observers s (snd (detach s x w))) = Return () \<longrightarrow> k = length (pre @ post)))) \<and>
      count_list (observers (subjects (snd (detach s x w)) s)) x + 1 =
        count_list (observers (subjects w s)) x \<and>
      (count_list (observers (subjects w s)) x = 1 \<longrightarrow>
         x \<notin> fst ` set (invoked (snd (detach s x w)) (snd (notify_observers s (snd (detach s x w))))))) \<and>
   (x \<notin> set (observers (subjects w s)) \<longrightarrow> detach s x w = (Raise ValueError, w))"
proof (cases "x \<in> set (observers (subjects w s))")
  case False
  then show ?thesis by (simp add: detach_def)
next
  case True
  let ?w = "snd (detach s x w)"
  from split_list_first [OF True] obtain pre post
    where sp: "observers (subjects w s) = pre @ x # post" "x \<notin> set pre" by blast
  have ob: "observers (subjects ?w s) = pre @ post"
    using detach_frame [of s x w] sp by (simp add: remove1_append)
  from notify_observers_invoked [of ?w s] obtain k
    where k: "k \<le> length (pre @ post)"
      "invoked ?w (snd (notify_observers s ?w)) = map (\<lambda>y. (y, subjects ?w)) (take k (pre @ post))"
      "fst (notify_observers s ?w) = Return () \<longrightarrow> k = length (pre @ post)"
    using ob by auto
  have m: "map fst (invoked ?w (snd (notify_observers s ?w))) = take k (pre @ post)"
    using k(2) by (simp add: comp_def)
  have r: "fst (detach s x w) = Return ()" using True by (simp add: detach_def)
  have c: "count_list (observers (subjects ?w s)) x + 1 = count_list (observers (subjects w s)) x"
    using ob sp by simp
  have n: "count_list (observers (subjects w s)) x = 1 \<longrightarrow>
         x \<notin> fst ` set (invoked ?w (snd (notify_observers s ?w)))"
  proof
    assume "count_list (observers (subjects w s)) x = 1"
    then have "count_list (pre @ post) x = 0" using c ob by simp
    then have "x \<notin> set (pre @ post)" by (simp add: count_list_0_iff)
    then have "x \<notin> set (take k (pre @ post))" using in_set_takeD by metis
    then have "x \<notin> set (map fst (invoked ?w (snd (notify_observers s ?w))))" using m by simp
    then show "x \<notin> fst ` set (invoked ?w (snd (notify_observers s ?w)))" by simp
  qed
  show ?thesis using True r sp ob k(1) k(3) m c n by blast
qed

theorem detach_first_occurrence_witness:
  "detach 0 1 doctest_world = (Raise ValueError, doctest_world) \<and>
   observers (subjects (snd (detach 0 1 (attach_all 0 [0, 1, 1] doctest_world))) 0) = [0, 1] \<and>
   observers (subjects (snd (detach 0 0 (attach_all 0 [0, 1, 1] doctest_world))) 0) = [1, 1] \<and>
   0 \<notin> fst ` set (invoked (snd (detach 0 0 (attach_all 0 [0, 1, 1] doctest_world)))
     (snd (notify_observers 0 (snd (detach 0 0 (attach_all 0 [0, 1, 1] doctest_world))))))"
proof -
  have a: "observers (subjects doctest_world 0) = []"
    by (simp add: doctest_world_def david_def ZonkHandHistory_init_def)
  have b: "observers (subjects (attach_all 0 [0, 1, 1] doctest_world) 0) = [0, 1, 1]"
    by (simp add: attach_def a)
  have c: "observers (subjects (snd (detach 0 1 (attach_all 0 [0, 1, 1] doctest_world))) 0) = [0, 1]"
    using b by (simp add: detach_def del: attach_all.simps)
  have d: "observers (subjects (snd (detach 0 0 (attach_all 0 [0, 1, 1] doctest_world))) 0) = [1, 1]"
    using b by (simp add: detach_def del: attach_all.simps)
  show ?thesis
    using detach_first_occurrence [of 1 doctest_world 0]
      detach_first_occurrence [of 0 "attach_all 0 [0, 1, 1] doctest_world" 0] a b c d
    by (simp del: attach_all.simps)
qed

subsection \<open>Notification order\<close>



lemma notify_observers_raise:
  "observers (subjects w s) = pre @ y # post \<Longrightarrow>
   \<forall>x \<in> set pre. fault (subjects w) (callables w x) = None \<Longrightarrow>
   fault (subjects w) (callables w y) = Some e \<Longrightarrow>
   fst (notify_observers s w) = Raise e \<and>
   invoked w (snd (notify_observers s w)) = map (\<lambda>x. (x, subjects w)) (pre @ [y])"
  using notify_loop_raise [of pre w y e post]
  by (simp add: notify_observers_def invoked_def)


lemma notify_observers_subjects: "subjects (snd (notify_observers s w)) = subjects w"
  by (simp add: notify_observers_def notify_loop_subjects)

lemma notify_observers_dices: "dices (snd (notify_observers s w)) = dices w"
  by (simp add: notify_observers_def notify_loop_dices)



subsection \<open>Notification after the append\<close>


lemma start_snd: "snd (start s w) = snd (notify_observers s (started s w))"
  by (simp add: start_eq)

lemma start_subjects:
  "subjects (snd (start s w)) = (subjects w)(s := (subjects w s)\<lparr>rolls := Some [new_hand s w]\<rparr>)"
  using started_frame [of s w] by (simp add: start_snd notify_observers_subjects)

lemma start_invoked: "invoked w (snd (start s w)) = invoked (started s w) (snd (notify_observers s (started s w)))"
  using started_frame [of s w] by (simp add: start_snd invoked_def)

lemma roll_snd:
  "rolls (subjects w s) = Some rs \<Longrightarrow> snd (roll s w) = snd (notify_observers s (appended s rs w))"
  by (simp add: roll_eq)

lemma roll_subjects:
  "rolls (subjects w s) = Some rs \<Longrightarrow>
   subjects (snd (roll s w)) = (subjects w)(s := (subjects w s)\<lparr>rolls := Some (rs @ [new_hand s w])\<rparr>)"
  using appended_frame [of s rs w] by (simp add: roll_snd notify_observers_subjects)

lemma roll_invoked:
  "rolls (subjects w s) = Some rs \<Longrightarrow>
   invoked w (snd (roll s w)) = invoked (appended s rs w) (snd (notify_observers s (appended s rs w)))"
  using appended_frame [of s rs w] by (simp add: roll_snd invoked_def)




lemmas model_defs = start_def roll_def notify_observers_def call_def roll_dice_set_def current_dice_def
  Dice_roll_def attach_def doctest_world_def david_def seed21_def ZonkHandHistory_init_def
  SaveZonkHand_init_def ThreePairZonkHand_init_def Let_def three_pair_def attached_world_def
  new_hand_def

lemma after_start_facts:
  "fst (start 0 attached_world) = Return [2, 3, 4, 4, 6, 6] \<and>
   rolls (subjects after_start 0) = Some [[2, 3, 4, 4, 6, 6]] \<and>
   observers (subjects after_start 0) = [0, 1] \<and>
   new_hand 0 after_start = [2, 2, 4, 4, 5, 5] \<and>
   fst (roll 0 after_start) = Return [2, 2, 4, 4, 5, 5]"
  by (simp add: after_start_def model_defs)


subsection \<open>Restart\<close>

lemma start_dices:
  "dices (snd (start s w)) =
     (dices w)(dice_set (subjects w s) := Dice_roll (dices w (dice_set (subjects w s))))"
  using started_frame [of s w] roll_dice_set_frame [of s w]
  by (simp add: start_snd notify_observers_dices)




subsection \<open>An observer that raises\<close>

text \<open>
  Claim C8. Let the observer \<open>y\<close> be attached after the observers \<open>pre\<close> and before the
  observers \<open>post\<close>, let \<open>y\<close> raise \<open>e\<close> on the subjects as they are after the append, and
  no observer of \<open>pre\<close> raise on them. Then \<open>start\<close>, and \<open>roll\<close> on a subject that has
  \<open>rolls\<close>, raises \<open>e\<close>; the callees of the round are \<open>pre\<close> and \<open>y\<close>, so no observer of
  \<open>post\<close> is called; and the new hand stays in \<open>rolls\<close>.
\<close>

theorem observer_failure:
  assumes "observers (subjects w s) = pre @ y # post"
  shows "((\<forall>x \<in> set pre. fault (subjects (snd (start s w))) (callables w x) = None) \<and>
          fault (subjects (snd (start s w))) (callables w y) = Some e \<longrightarrow>
            fst (start s w) = Raise e \<and>
            map fst (invoked w (snd (start s w))) = pre @ [y] \<and>
            rolls (subjects (snd (start s w)) s) = Some [new_hand s w]) \<and>
         (\<forall>rs. rolls (subjects w s) = Some rs \<and>
            (\<forall>x \<in> set pre. fault (subjects (snd (roll s w))) (callables w x) = None) \<and>
            fault (subjects (snd (roll s w))) (callables w y) = Some e \<longrightarrow>
              fst (roll s w) = Raise e \<and>
              map fst (invoked w (snd (roll s w))) = pre @ [y] \<and>
              rolls (subjects (snd (roll s w)) s) = Some (rs @ [new_hand s w]))"
proof -
  have st: "(\<forall>x \<in> set pre. fault (subjects (snd (start s w))) (callables w x) = None) \<and>
          fault (subjects (snd (start s w))) (callables w y) = Some e \<longrightarrow>
            fst (start s w) = Raise e \<and>
            map fst (invoked w (snd (start s w))) = pre @ [y] \<and>
            rolls (subjects (snd (start s w)) s) = Some [new_hand s w]"
  proof
    let ?w = "started s w"
    assume h: "(\<forall>x \<in> set pre. fault (subjects (snd (start s w))) (callables w x) = None) \<and>
          fault (subjects (snd (start s w))) (callables w y) = Some e"
    have f: "observers (subjects ?w s) = pre @ y # post" "callables ?w = callables w"
      "subjects (snd (start s w)) = subjects ?w"
      using started_frame [of s w] assms by (simp_all add: start_snd notify_observers_subjects)
    have n: "fst (notify_observers s ?w) = Raise e \<and>
      invoked ?w (snd (notify_observers s ?w)) = map (\<lambda>x. (x, subjects ?w)) (pre @ [y])"
      using notify_observers_raise [OF f(1), of e] h f by simp
    have "map fst (invoked w (snd (start s w))) = pre @ [y]"
      using n by (simp add: start_invoked comp_def)
    moreover have "fst (start s w) = Raise e" using n by (simp add: start_eq)
    ultimately show "fst (start s w) = Raise e \<and>
            map fst (invoked w (snd (start s w))) = pre @ [y] \<and>
            rolls (subjects (snd (start s w)) s) = Some [new_hand s w]"
      by (simp add: start_subjects)
  qed
  have ro: "\<forall>rs. rolls (subjects w s) = Some rs \<and>
            (\<forall>x \<in> set pre. fault (subjects (snd (roll s w))) (callables w x) = None) \<and>
            fault (subjects (snd (roll s w))) (callables w y) = Some e \<longrightarrow>
              fst (roll s w) = Raise e \<and>
              map fst (invoked w (snd (roll s w))) = pre @ [y] \<and>
              rolls (subjects (snd (roll s w)) s) = Some (rs @ [new_hand s w])"
  proof (intro allI impI)
    fix rs
    let ?w = "appended s rs w"
    assume h: "rolls (subjects w s) = Some rs \<and>
            (\<forall>x \<in> set pre. fault (subjects (snd (roll s w))) (callables w x) = None) \<and>
            fault (subjects (snd (roll s w))) (callables w y) = Some e"
    then have rs: "rolls (subjects w s) = Some rs" by simp
    have f: "observers (subjects ?w s) = pre @ y # post" "callables ?w = callables w"
      "subjects (snd (roll s w)) = subjects ?w"
      using appended_frame [of s rs w] assms rs by (simp_all add: roll_snd notify_observers_subjects)
    have n: "fst (notify_observers s ?w) = Raise e \<and>
      invoked ?w (snd (notify_observers s ?w)) = map (\<lambda>x. (x, subjects ?w)) (pre @ [y])"
      using notify_observers_raise [OF f(1), of e] h f by simp
    have "map fst (invoked w (snd (roll s w))) = pre @ [y]"
      using n rs by (simp add: roll_invoked comp_def)
    moreover have "fst (roll s w) = Raise e" using n rs by (simp add: roll_eq)
    ultimately show "fst (roll s w) = Raise e \<and>
              map fst (invoked w (snd (roll s w))) = pre @ [y] \<and>
              rolls (subjects (snd (roll s w)) s) = Some (rs @ [new_hand s w])"
      using rs by (simp add: roll_subjects)
  qed
  show ?thesis using st ro by blast
qed

theorem observer_failure_witness:
  "observers (subjects foreign_world 0) = [0] @ 2 # [1] \<and>
   fst (start 0 foreign_world) = Raise AttributeError \<and>
   map fst (invoked foreign_world (snd (start 0 foreign_world))) = [0, 2] \<and>
   rolls (subjects (snd (start 0 foreign_world)) 0) = Some [[2, 3, 4, 4, 6, 6]] \<and>
   fst (roll 0 (snd (start 0 foreign_world))) = Raise AttributeError \<and>
   rolls (subjects (snd (roll 0 (snd (start 0 foreign_world)))) 0) =
     Some [[2, 3, 4, 4, 6, 6], [2, 2, 4, 4, 5, 5]]"
proof -
  let ?w = "snd (start 0 foreign_world)"
  have a: "observers (subjects foreign_world 0) = [0] @ 2 # [1]"
    by (simp add: foreign_world_def model_defs)
  have b: "new_hand 0 foreign_world = [2, 3, 4, 4, 6, 6] \<and>
    (\<forall>x \<in> set [0]. fault (subjects ?w) (callables foreign_world x) = None) \<and>
    fault (subjects ?w) (callables foreign_world 2) = Some AttributeError"
    by (simp add: start_subjects) (simp add: foreign_world_def model_defs)
  have a': "observers (subjects ?w 0) = [0] @ 2 # [1]"
    using a by (simp add: start_subjects)
  have c: "rolls (subjects ?w 0) = Some [[2, 3, 4, 4, 6, 6]] \<and> new_hand 0 ?w = [2, 2, 4, 4, 5, 5]"
    using b by (simp add: start_subjects) (simp add: new_hand_def start_subjects start_dices Let_def foreign_world_def model_defs)
  have d: "(\<forall>x \<in> set [0]. fault (subjects (snd (roll 0 ?w))) (callables ?w x) = None) \<and>
    fault (subjects (snd (roll 0 ?w))) (callables ?w 2) = Some AttributeError"
    using c by (simp add: roll_subjects) (simp add: foreign_world_def model_defs)
  show ?thesis
    using observer_failure [OF a, of AttributeError] observer_failure [OF a', of AttributeError] a b c d
    by simp
qed

subsection \<open>The log of a session\<close>

lemma roll_dices:
  "dices (snd (roll s w)) =
     (dices w)(dice_set (subjects w s) := Dice_roll (dices w (dice_set (subjects w s))))"
proof (cases "rolls (subjects w s)")
  case None
  then show ?thesis using roll_dice_set_frame [of s w] by (simp add: roll_unset)
next
  case (Some rs)
  then show ?thesis
    using appended_frame [of s rs w] roll_dice_set_frame [of s w]
    by (simp add: roll_snd notify_observers_dices)
qed

lemma upt_Suc_shift: "[0..<Suc n] = 0 # map Suc [0..<n]"
  by (simp add: upt_conv_Cons map_Suc_upt del: upt_Suc)

lemma run_rolls:
  "rolls (subjects w s) = Some rs \<Longrightarrow>
   rolls (subjects (run s (replicate n Roll) w) s) =
     Some (rs @ map (\<lambda>k. source (dices w (dice_set (subjects w s)))
                          (draws (dices w (dice_set (subjects w s))) + k)) [0..<n])"
proof (induction n arbitrary: w rs)
  case 0
  then show ?case by simp
next
  case (Suc n)
  let ?d = "dice_set (subjects w s)"
  let ?D = "dices w ?d"
  let ?w = "snd (roll s w)"
  have r: "rolls (subjects ?w s) = Some (rs @ [source ?D (draws ?D)])"
    using Suc.prems by (simp add: roll_subjects new_hand_def Let_def)
  have d: "dice_set (subjects ?w s) = ?d"
    using Suc.prems by (simp add: roll_subjects)
  have D: "source (dices ?w ?d) = source ?D" "draws (dices ?w ?d) = Suc (draws ?D)"
    by (simp_all add: roll_dices Dice_roll_def)
  have "rolls (subjects (run s (replicate n Roll) ?w) s) =
     Some ((rs @ [source ?D (draws ?D)]) @ map (\<lambda>k. source ?D (Suc (draws ?D) + k)) [0..<n])"
    using Suc.IH [OF r] d D by simp
  moreover have "map (\<lambda>k. source ?D (draws ?D + k)) [0..<Suc n] =
      source ?D (draws ?D) # map (\<lambda>k. source ?D (Suc (draws ?D) + k)) [0..<n]"
    by (simp only: upt_Suc_shift) (simp add: comp_def)
  ultimately show ?case by (simp del: upt_Suc)
qed

lemma session_rolls:
  "rolls (subjects (run s (Start # replicate n Roll) w) s) =
     Some (map (\<lambda>k. source (dices w (dice_set (subjects w s)))
                       (draws (dices w (dice_set (subjects w s))) + k)) [0..<Suc n])"
proof -
  let ?d = "dice_set (subjects w s)"
  let ?D = "dices w ?d"
  let ?w = "snd (start s w)"
  have r: "rolls (subjects ?w s) = Some [source ?D (draws ?D)]"
    by (simp add: start_subjects new_hand_def Let_def)
  have d: "dice_set (subjects ?w s) = ?d"
    by (simp add: start_subjects)
  have D: "source (dices ?w ?d) = source ?D" "draws (dices ?w ?d) = Suc (draws ?D)"
    by (simp_all add: start_dices Dice_roll_def)
  have "rolls (subjects (run s (replicate n Roll) ?w) s) =
     Some ([source ?D (draws ?D)] @ map (\<lambda>k. source ?D (Suc (draws ?D) + k)) [0..<n])"
    using run_rolls [OF r, of n] d D by simp
  moreover have "map (\<lambda>k. source ?D (draws ?D + k)) [0..<Suc n] =
      source ?D (draws ?D) # map (\<lambda>k. source ?D (Suc (draws ?D) + k)) [0..<n]"
    by (simp only: upt_Suc_shift) (simp add: comp_def)
  ultimately show ?thesis by (simp del: upt_Suc)
qed

text \<open>
  Claim C4. After \<open>start\<close> followed by \<open>n\<close> calls of \<open>roll\<close> (\<open>N = n + 1\<close> calls) the
  list \<open>rolls\<close> has \<open>N\<close> hands: the hands that the dice set drew, in the order of the
  calls; the list after the first \<open>j + 1\<close> calls is its prefix of length \<open>j + 1\<close>. A call
  of \<open>roll\<close> on a subject that has \<open>rolls\<close> appends exactly one hand, the new one, to the
  list as it was. A call of \<open>start\<close> sets \<open>rolls\<close> to the new hand alone, whatever the
  list was. All this holds also when an observer raises.
\<close>

theorem append_only_log:
  "(\<exists>log. rolls (subjects (run s (Start # replicate n Roll) w) s) = Some log \<and>
      length log = Suc n \<and>
      log = map (\<lambda>k. source (dices w (dice_set (subjects w s)))
                        (draws (dices w (dice_set (subjects w s))) + k)) [0..<Suc n] \<and>
      (\<forall>j \<le> n. rolls (subjects (run s (Start # replicate j Roll) w) s) = Some (take (Suc j) log))) \<and>
   (\<forall>rs. rolls (subjects w s) = Some rs \<longrightarrow>
      rolls (subjects (snd (roll s w)) s) = Some (rs @ [new_hand s w]) \<and>
      length (rs @ [new_hand s w]) = Suc (length rs) \<and>
      take (length rs) (rs @ [new_hand s w]) = rs) \<and>
   rolls (subjects (snd (start s w)) s) = Some [new_hand s w] \<and>
   length [new_hand s w] = 1"
proof -
  let ?f = "\<lambda>k. source (dices w (dice_set (subjects w s))) (draws (dices w (dice_set (subjects w s))) + k)"
  have p: "\<forall>j \<le> n. rolls (subjects (run s (Start # replicate j Roll) w) s) =
      Some (take (Suc j) (map ?f [0..<Suc n]))"
  proof (intro allI impI)
    fix j
    assume "j \<le> n"
    then have "take (Suc j) (map ?f [0..<Suc n]) = map ?f [0..<Suc j]"
      by (simp add: take_map del: upt_Suc)
    then show "rolls (subjects (run s (Start # replicate j Roll) w) s) =
      Some (take (Suc j) (map ?f [0..<Suc n]))"
      using session_rolls [of s j w] by simp
  qed
  have a: "\<exists>log. rolls (subjects (run s (Start # replicate n Roll) w) s) = Some log \<and>
      length log = Suc n \<and> log = map ?f [0..<Suc n] \<and>
      (\<forall>j \<le> n. rolls (subjects (run s (Start # replicate j Roll) w) s) = Some (take (Suc j) log))"
    using session_rolls [of s n w] p by simp
  have b: "\<forall>rs. rolls (subjects w s) = Some rs \<longrightarrow>
      rolls (subjects (snd (roll s w)) s) = Some (rs @ [new_hand s w]) \<and>
      length (rs @ [new_hand s w]) = Suc (length rs) \<and>
      take (length rs) (rs @ [new_hand s w]) = rs"
    by (simp add: roll_subjects)
  have c: "rolls (subjects (snd (start s w)) s) = Some [new_hand s w] \<and> length [new_hand s w] = 1"
    by (simp add: start_subjects)
  show ?thesis using a b c by blast
qed

theorem append_only_log_witness:
  "rolls (subjects (run 0 (Start # replicate 1 Roll) attached_world) 0) =
     Some [[2, 3, 4, 4, 6, 6], [2, 2, 4, 4, 5, 5]] \<and>
   rolls (subjects after_start 0) = Some [[2, 3, 4, 4, 6, 6]] \<and>
   rolls (subjects (snd (roll 0 after_start)) 0) = Some ([[2, 3, 4, 4, 6, 6]] @ [[2, 2, 4, 4, 5, 5]])"
proof -
  have a: "source (dices attached_world (dice_set (subjects attached_world 0))) =
      (\<lambda>k. if k = 0 then [2, 3, 4, 4, 6, 6] else [2, 2, 4, 4, 5, 5]) \<and>
    draws (dices attached_world (dice_set (subjects attached_world 0))) = 0"
    by (simp add: model_defs)
  have b: "[0..<Suc 1] = [0, 1]" by (simp add: upt_rec)
  show ?thesis
    using append_only_log [of 0 1 attached_world] append_only_log [of 0 0 after_start]
      after_start_facts a b
    by (simp del: upt_Suc run.simps replicate.simps)
qed

subsection \<open>The recorder\<close>
















end
